theory Spec2Isabelle
  imports Complex_Main
begin

section \<open>Neighbourhood cleaning rule: data model\<close>

text \<open>
  The development embeds \<^verbatim>\<open>NeighbourhoodCleaningRule\<close> of
  \<^verbatim>\<open>imblearn/under_sampling/prototype_selection/neighbourhood_cleaning_rule.py\<close>.
  Class labels are integers, a feature row is a value of an arbitrary type \<open>'x\<close>, index
  arrays are lists of naturals (they come from \<^verbatim>\<open>flatnonzero\<close> and from the
  neighbour search, which return positions). Python floats are read as reals: the two
  comparisons of \<^verbatim>\<open>fit\<close> against the literals 0 and 1 are exact on floats; the product
  \<^verbatim>\<open>X.shape[0] * threshold_cleaning\<close> is taken without rounding.
\<close>

type_synonym label = int

datatype error =
    NotImplementedError
  | ValueError
  | IndexError
  | AttributeError
  | UnboundLocalError
  | ZeroWidthNeighbourhood

datatype ratio_spec = RatioStr string | RatioDict "(label \<times> nat) list"

text \<open>
  The neighbour-search object held in \<^verbatim>\<open>self.nn_\<close>: its two parameters and the data it
  was last fitted on.
\<close>

record 'x nn_object =
  nn_n_neighbors :: int
  nn_n_jobs :: int
  nn_fit_X :: "'x list option"

text \<open>\<^verbatim>\<open>n_neighbors : int or object\<close>.\<close>

datatype 'x n_neighbors_param = NInt int | NObject "'x nn_object"

text \<open>
  The object: the constructor's parameters, then the attributes that fitting assigns
  (absent, \<open>None\<close>, on a fresh object). The attributes \<^verbatim>\<open>ratio_\<close> and \<^verbatim>\<open>nn_\<close> are named
  \<open>ratio_fitted\<close> and \<open>nn_fitted\<close>.
\<close>

record 'x ncr =
  ratio :: ratio_spec
  return_indices :: bool
  random_state :: "int option"
  size_ngh :: "int option"
  n_neighbors :: "'x n_neighbors_param"
  kind_sel :: string
  threshold_cleaning :: real
  n_jobs :: int
  X_shape_fitted :: "(nat \<times> nat) option"
  ratio_fitted :: "(label \<times> nat) list option"
  nn_fitted :: "'x nn_object option"

text \<open>The keyword arguments with which the Edited-Nearest-Neighbours object is built.\<close>

record 'x enn_config =
  enn_ratio :: ratio_spec
  enn_return_indices :: bool
  enn_random_state :: "int option"
  enn_size_ngh :: "int option"
  enn_n_neighbors :: "'x n_neighbors_param"
  enn_kind_sel :: string
  enn_n_jobs :: int

text \<open>
  The collaborators whose code is outside the module, taken as parameters:
  \<^item> \<open>base_fit\<close>: what \<^verbatim>\<open>super().fit(X, y)\<close> computes from the ratio specification and the
    data, the data shape and the resampling ratio, or the error it raises;
  \<^item> \<open>check_neighbors_object\<close>: \<^verbatim>\<open>check_neighbors_object('n_neighbors', n, additional_neighbor=a)\<close>;
  \<^item> \<open>enn_fit_sample\<close>: \<^verbatim>\<open>EditedNearestNeighbours(**config).fit_sample(X, y)\<close>;
  \<^item> \<open>kneighbors\<close>: one row of \<^verbatim>\<open>nn_.kneighbors(Q, return_distance=False)\<close>, the indices
    of the neighbours of one query point, nearest first, as found by the fitted object.
\<close>

record 'x env =
  base_fit :: "ratio_spec \<Rightarrow> 'x list \<Rightarrow> label list \<Rightarrow> error + ((nat \<times> nat) \<times> (label \<times> nat) list)"
  check_neighbors_object :: "'x n_neighbors_param \<Rightarrow> int \<Rightarrow> error + 'x nn_object"
  enn_fit_sample :: "'x enn_config \<Rightarrow> 'x list \<Rightarrow> label list \<Rightarrow> error + ('x list \<times> label list \<times> nat list)"
  kneighbors :: "'x nn_object \<Rightarrow> 'x \<Rightarrow> error + nat list"

datatype 'x result =
    Res2 "'x list" "label list"
  | Res3 "'x list" "label list" "nat list"

section \<open>Fitting\<close>

definition SEL_KIND :: "string list" where
  "SEL_KIND = [''all'', ''mode'']"

text \<open>
  Modelled from the spec: \<^verbatim>\<open>BaseSampler.fit\<close> is not among the sources. It "records the data
  shape" and "computes the resampling ratio"; both come from the parameter \<open>base_fit\<close>, and an
  error of the base class leaves the object as it was.
\<close>

definition super_fit :: "'x env \<Rightarrow> 'x ncr \<Rightarrow> 'x list \<Rightarrow> label list \<Rightarrow> error option \<times> 'x ncr" where
  "super_fit env st X y =
     (case base_fit env (ratio st) X y of
        Inl e \<Rightarrow> (Some e, st)
      | Inr (shape, r) \<Rightarrow> (None, st\<lparr>X_shape_fitted := Some shape, ratio_fitted := Some r\<rparr>))"

text \<open>
  \<^verbatim>\<open>fit\<close>: the outcome is \<open>None\<close> when the method returns \<^verbatim>\<open>self\<close> and \<open>Some e\<close> when it
  raises \<open>e\<close>; the second component is the object afterwards.
\<close>

definition fit :: "'x env \<Rightarrow> 'x ncr \<Rightarrow> 'x list \<Rightarrow> label list \<Rightarrow> error option \<times> 'x ncr" where
  "fit env st X y =
     (case super_fit env st X y of
        (Some e, st1) \<Rightarrow> (Some e, st1)
      | (None, st1) \<Rightarrow>
          (case check_neighbors_object env (n_neighbors st1) 1 of
             Inl e \<Rightarrow> (Some e, st1)
           | Inr nn \<Rightarrow>
               (let st2 = st1\<lparr>nn_fitted := Some (nn\<lparr>nn_n_jobs := n_jobs st1\<rparr>)\<rparr> in
                if kind_sel st2 \<notin> set SEL_KIND then (Some NotImplementedError, st2)
                else if threshold_cleaning st2 > 1 \<or> threshold_cleaning st2 < 0
                  then (Some ValueError, st2)
                else (None, st2))))"

section \<open>The array operations used by the cleaning pass\<close>

text \<open>\<^verbatim>\<open>m[idx] = False\<close> on a boolean array: an index past the end raises.\<close>

definition mask_clear :: "bool list \<Rightarrow> nat list \<Rightarrow> error + bool list" where
  "mask_clear m idx =
     (if \<forall>i \<in> set idx. i < length m then Inr (fold (\<lambda>i acc. acc[i := False]) idx m)
      else Inl IndexError)"

definition np_flatnonzero :: "bool list \<Rightarrow> nat list" where
  "np_flatnonzero m = filter (\<lambda>i. m ! i) [0..<length m]"

text \<open>\<^verbatim>\<open>np.unique\<close>: the distinct elements in increasing order.\<close>

definition np_unique :: "nat list \<Rightarrow> nat list" where
  "np_unique xs = sort (remdups xs)"

definition np_union1d :: "nat list \<Rightarrow> nat list \<Rightarrow> nat list" where
  "np_union1d xs ys = np_unique (xs @ ys)"

text \<open>\<^verbatim>\<open>a[idx]\<close> with an integer index array: an index past the end raises.\<close>

definition take_rows :: "'a list \<Rightarrow> nat list \<Rightarrow> error + 'a list" where
  "take_rows a idx =
     (if \<forall>i \<in> set idx. i < length a then Inr (map (\<lambda>i. a ! i) idx) else Inl IndexError)"

text \<open>
  \<^verbatim>\<open>Counter(y)\<close>: the labels in the order of their first occurrence, each with the number
  of its occurrences.
\<close>

fun counter_add :: "label \<Rightarrow> (label \<times> nat) list \<Rightarrow> (label \<times> nat) list" where
  "counter_add c [] = [(c, 1)]"
| "counter_add c ((k, n) # kvs) =
     (if k = c then (k, Suc n) # kvs else (k, n) # counter_add c kvs)"

definition Counter :: "label list \<Rightarrow> (label \<times> nat) list" where
  "Counter ys = foldl (\<lambda>acc c. counter_add c acc) [] ys"

text \<open>
  \<^verbatim>\<open>min(target_stats, key=target_stats.get)\<close>: the first key, in iteration order, whose
  count is minimal; \<^verbatim>\<open>min\<close> of an empty dictionary raises \<^verbatim>\<open>ValueError\<close>.
\<close>

fun min_key_from :: "label \<times> nat \<Rightarrow> (label \<times> nat) list \<Rightarrow> label" where
  "min_key_from (k, n) [] = k"
| "min_key_from (k, n) ((k', n') # kvs) =
     (if n' < n then min_key_from (k', n') kvs else min_key_from (k, n) kvs)"

definition min_key :: "(label \<times> nat) list \<Rightarrow> error + label" where
  "min_key kvs = (case kvs of [] \<Rightarrow> Inl ValueError | kv # rest \<Rightarrow> Inr (min_key_from kv rest))"

text \<open>
  \<^verbatim>\<open>scipy.stats.mode\<close> of one non-empty row: the scores are visited in increasing order
  and a score replaces the current one only when it occurs strictly more often, so the
  smallest of the most frequent labels wins.
\<close>

definition mode_row :: "label list \<Rightarrow> label" where
  "mode_row row =
     fst (fold (\<lambda>score (best, cnt).
                  (let c = count_list row score in if c > cnt then (score, c) else (best, cnt)))
               (sort (remdups row)) (0, 0))"

section \<open>The cleaning pass\<close>

text \<open>The Edited-Nearest-Neighbours object that \<^verbatim>\<open>_sample\<close> constructs (lines 166 to 171).\<close>

definition make_enn :: "'x ncr \<Rightarrow> 'x enn_config" where
  "make_enn st =
     \<lparr>enn_ratio = ratio st, enn_return_indices = True, enn_random_state = random_state st,
      enn_size_ngh = size_ngh st, enn_n_neighbors = n_neighbors st, enn_kind_sel = ''mode'',
      enn_n_jobs = n_jobs st\<rparr>"

text \<open>Lines 172 to 175: the indices that the Edited-Nearest-Neighbours pass did not return.\<close>

definition stage_a1 :: "'x env \<Rightarrow> 'x ncr \<Rightarrow> 'x list \<Rightarrow> label list \<Rightarrow> error + nat list" where
  "stage_a1 env st X y =
     (case enn_fit_sample env (make_enn st) X y of
        Inl e \<Rightarrow> Inl e
      | Inr (X_enn, y_enn, index_not_a1) \<Rightarrow>
          (case mask_clear (replicate (length y) True) index_not_a1 of
             Inl e \<Rightarrow> Inl e
           | Inr index_a1 \<Rightarrow> Inr (np_flatnonzero index_a1)))"

text \<open>Lines 181 to 184.\<close>

definition classes_under_sample ::
  "(label \<times> nat) list \<Rightarrow> (label \<times> nat) list \<Rightarrow> nat \<Rightarrow> real \<Rightarrow> label list" where
  "classes_under_sample target_stats ratio_dict n thr =
     map fst (filter (\<lambda>(c, n_samples). c \<in> set (map fst ratio_dict) \<and> real n_samples > real n * thr)
                     target_stats)"

text \<open>\<^verbatim>\<open>self.nn_.fit(X)\<close> replaces the data the search object holds.\<close>

definition nn_fit :: "'x nn_object \<Rightarrow> 'x list \<Rightarrow> 'x nn_object" where
  "nn_fit nn X = nn\<lparr>nn_fit_X := Some X\<rparr>"

text \<open>\<^verbatim>\<open>nn_.kneighbors(X_class, return_distance=False)\<close>: one row for each query point.\<close>

fun kneighbors_all :: "'x env \<Rightarrow> 'x nn_object \<Rightarrow> 'x list \<Rightarrow> error + nat list list" where
  "kneighbors_all env nn [] = Inr []"
| "kneighbors_all env nn (q # qs) =
     (case kneighbors env nn q of
        Inl e \<Rightarrow> Inl e
      | Inr row \<Rightarrow>
          (case kneighbors_all env nn qs of
             Inl e \<Rightarrow> Inl e
           | Inr rows \<Rightarrow> Inr (row # rows)))"

text \<open>\<^verbatim>\<open>y[nnhood_idx]\<close> with a matrix of indices.\<close>

definition label_rows :: "label list \<Rightarrow> nat list list \<Rightarrow> error + label list list" where
  "label_rows y idx =
     (if \<forall>row \<in> set idx. \<forall>i \<in> set row. i < length y
      then Inr (map (map (\<lambda>i. y ! i)) idx) else Inl IndexError)"

text \<open>
  Lines 191 to 196, one boolean for each minority sample. In the branch \<^verbatim>\<open>'all'\<close> the
  comparison with \<^verbatim>\<open>class_minority\<close> is assigned to \<^verbatim>\<open>nnhood_label_majority\<close> and not
  read again: \<^verbatim>\<open>np.all\<close> is applied to the labels themselves, whose truth value is
  "not zero". With another \<^verbatim>\<open>kind_sel\<close> no branch assigns \<^verbatim>\<open>nnhood_bool\<close> and line 198
  raises. The outcome of \<^verbatim>\<open>mode\<close> on rows of width zero depends on the library version;
  it is reported as an error of its own.
\<close>

definition nnhood_bool :: "string \<Rightarrow> label list \<Rightarrow> label list list \<Rightarrow> error + bool list" where
  "nnhood_bool ks y_class nnhood_label =
     (if ks = ''mode'' then
        (if \<exists>row \<in> set nnhood_label. row = [] then Inl ZeroWidthNeighbourhood
         else Inr (map (\<lambda>(row, yc). mode_row row = yc) (zip nnhood_label y_class)))
      else if ks = ''all'' then Inr (map (\<lambda>row. \<forall>l \<in> set row. l \<noteq> 0) nnhood_label)
      else Inl UnboundLocalError)"

text \<open>Lines 198 to 200.\<close>

definition index_a2 :: "label list \<Rightarrow> label list \<Rightarrow> nat list list \<Rightarrow> bool list \<Rightarrow> nat list" where
  "index_a2 y classes nnhood_idx nb =
     np_unique (filter (\<lambda>index. y ! index \<in> set classes)
                       (concat (map fst (filter (\<lambda>(row, b). \<not> b) (zip nnhood_idx nb)))))"

text \<open>Lines 186 to 200, after the search object has been fitted.\<close>

definition a2_after_fit ::
  "'x env \<Rightarrow> string \<Rightarrow> 'x nn_object \<Rightarrow> label \<Rightarrow> label list \<Rightarrow> 'x list \<Rightarrow> label list \<Rightarrow> error + nat list" where
  "a2_after_fit env ks nn class_minority classes X y =
     (if length X \<noteq> length y then Inl IndexError
      else
        (let X_class = map (\<lambda>i. X ! i) (filter (\<lambda>i. y ! i = class_minority) [0..<length y]);
             y_class = filter (\<lambda>l. l = class_minority) y
         in case kneighbors_all env nn X_class of
              Inl e \<Rightarrow> Inl e
            | Inr rows \<Rightarrow>
                (let nnhood_idx = map tl rows
                 in case label_rows y nnhood_idx of
                      Inl e \<Rightarrow> Inl e
                    | Inr nnhood_label \<Rightarrow>
                        (case nnhood_bool ks y_class nnhood_label of
                           Inl e \<Rightarrow> Inl e
                         | Inr nb \<Rightarrow> Inr (index_a2 y classes nnhood_idx nb)))))"

text \<open>
  Lines 178 to 200. The object is returned with the search object fitted on \<open>X\<close> once line
  185 has been reached.
\<close>

definition stage_a2 ::
  "'x env \<Rightarrow> 'x ncr \<Rightarrow> 'x list \<Rightarrow> label list \<Rightarrow> (error + nat list) \<times> 'x ncr" where
  "stage_a2 env st X y =
     (let target_stats = Counter y
      in case min_key target_stats of
           Inl e \<Rightarrow> (Inl e, st)
         | Inr class_minority \<Rightarrow>
             (case ratio_fitted st of
                None \<Rightarrow> (Inl AttributeError, st)
              | Some ratio_dict \<Rightarrow>
                  (let classes = classes_under_sample target_stats ratio_dict (length X)
                                   (threshold_cleaning st)
                   in case nn_fitted st of
                        None \<Rightarrow> (Inl AttributeError, st)
                      | Some nn \<Rightarrow>
                          (let nn' = nn_fit nn X
                           in (a2_after_fit env (kind_sel st) nn' class_minority classes X y,
                               st\<lparr>nn_fitted := Some nn'\<rparr>)))))"

text \<open>Lines 166 to 205: the array \<^verbatim>\<open>index_target_class\<close>.\<close>

definition index_target_class ::
  "'x env \<Rightarrow> 'x ncr \<Rightarrow> 'x list \<Rightarrow> label list \<Rightarrow> (error + nat list) \<times> 'x ncr" where
  "index_target_class env st X y =
     (case stage_a1 env st X y of
        Inl e \<Rightarrow> (Inl e, st)
      | Inr index_a1 \<Rightarrow>
          (case stage_a2 env st X y of
             (Inl e, st') \<Rightarrow> (Inl e, st')
           | (Inr a2, st') \<Rightarrow>
               (let union_a1_a2 = np_union1d index_a1 a2
                in case mask_clear (replicate (length y) True) union_a1_a2 of
                     Inl e \<Rightarrow> (Inl e, st')
                   | Inr selected_samples \<Rightarrow> (Inr (np_flatnonzero selected_samples), st'))))"

text \<open>
  \<^verbatim>\<open>_sample\<close>. The call of the logger between the selection and the return is left out:
  it reads \<^verbatim>\<open>y[index_target_class]\<close> and changes nothing that the method returns.
\<close>

definition sample ::
  "'x env \<Rightarrow> 'x ncr \<Rightarrow> 'x list \<Rightarrow> label list \<Rightarrow> (error + 'x result) \<times> 'x ncr" where
  "sample env st X y =
     (case index_target_class env st X y of
        (Inl e, st') \<Rightarrow> (Inl e, st')
      | (Inr idx, st') \<Rightarrow>
          (case take_rows X idx of
             Inl e \<Rightarrow> (Inl e, st')
           | Inr X_res \<Rightarrow>
               (case take_rows y idx of
                  Inl e \<Rightarrow> (Inl e, st')
                | Inr y_res \<Rightarrow>
                    (if return_indices st' then (Inr (Res3 X_res y_res idx), st')
                     else (Inr (Res2 X_res y_res), st')))))"

text \<open>
  Modelled from the spec: \<^verbatim>\<open>BaseSampler.fit_sample\<close> is not among the sources. It is the
  "combined fit-and-clean convenience call": \<^verbatim>\<open>fit\<close>, then the cleaning pass on the fitted
  object; an error of \<^verbatim>\<open>fit\<close> ends the call.
\<close>

definition fit_sample ::
  "'x env \<Rightarrow> 'x ncr \<Rightarrow> 'x list \<Rightarrow> label list \<Rightarrow> (error + 'x result) \<times> 'x ncr" where
  "fit_sample env st X y =
     (case fit env st X y of
        (Some e, st') \<Rightarrow> (Inl e, st')
      | (None, st') \<Rightarrow> sample env st' X y)"

section \<open>The reading of the specification for the selection kind "all"\<close>

text \<open>
  Written from the words of the specification, to be compared with \<open>nnhood_bool\<close>: a
  neighbourhood is consistent when every neighbour bears the minority class label.
\<close>

definition consistent_all_spec :: "label \<Rightarrow> label list \<Rightarrow> bool" where
  "consistent_all_spec class_minority row = (\<forall>l \<in> set row. l = class_minority)"

text \<open>The two first outputs of the cleaning pass.\<close>

fun res_X :: "'x result \<Rightarrow> 'x list" where
  "res_X (Res2 Xr yr) = Xr"
| "res_X (Res3 Xr yr idx) = Xr"

fun res_y :: "'x result \<Rightarrow> label list" where
  "res_y (Res2 Xr yr) = yr"
| "res_y (Res3 Xr yr idx) = yr"

section \<open>A concrete instance\<close>

text \<open>
  Collaborators on which the definitions can be evaluated. The samples are points of the
  integer line. The neighbour search sorts the fitted points by their distance to the
  query, the earlier point first among equally distant ones. The stand-in for the
  Edited-Nearest-Neighbours pass drops sample 2 when it is asked for the kind "mode" and
  nothing otherwise; it does not read the seed. The base class accepts data of equal
  lengths and marks every class but the rarest for cleaning.
\<close>

definition knn_line :: "int nn_object \<Rightarrow> int \<Rightarrow> error + nat list" where
  "knn_line nn q =
     (case nn_fit_X nn of
        None \<Rightarrow> Inl AttributeError
      | Some Xf \<Rightarrow>
          (if nn_n_neighbors nn < 0 \<or> int (length Xf) < nn_n_neighbors nn then Inl ValueError
           else Inr (take (nat (nn_n_neighbors nn))
                          (sort_key (\<lambda>i. \<bar>Xf ! i - q\<bar>) [0..<length Xf]))))"

definition enn_ex ::
  "int enn_config \<Rightarrow> int list \<Rightarrow> label list \<Rightarrow> error + (int list \<times> label list \<times> nat list)" where
  "enn_ex cfg X y =
     (if length X \<noteq> length y then Inl ValueError
      else
        (let keep = filter (\<lambda>i. \<not> (enn_kind_sel cfg = ''mode'' \<and> i = 2)) [0..<length y]
         in Inr (map (\<lambda>i. X ! i) keep, map (\<lambda>i. y ! i) keep, keep)))"

definition base_fit_ex ::
  "ratio_spec \<Rightarrow> int list \<Rightarrow> label list \<Rightarrow> error + ((nat \<times> nat) \<times> (label \<times> nat) list)" where
  "base_fit_ex r X y =
     (if length X \<noteq> length y then Inl ValueError
      else Inr ((length X, 1), filter (\<lambda>(c, n). Inr c \<noteq> min_key (Counter y)) (Counter y)))"

definition check_neighbors_ex :: "int n_neighbors_param \<Rightarrow> int \<Rightarrow> error + int nn_object" where
  "check_neighbors_ex p a =
     (case p of
        NInt k \<Rightarrow> Inr \<lparr>nn_n_neighbors = k + a, nn_n_jobs = 1, nn_fit_X = None\<rparr>
      | NObject obj \<Rightarrow> Inr obj)"

definition env_ex :: "int env" where
  "env_ex = \<lparr>base_fit = base_fit_ex, check_neighbors_object = check_neighbors_ex,
             enn_fit_sample = enn_ex, kneighbors = knn_line\<rparr>"

definition ncr_ex :: "string \<Rightarrow> real \<Rightarrow> bool \<Rightarrow> int ncr" where
  "ncr_ex ks thr ri =
     \<lparr>ratio = RatioStr ''auto'', return_indices = ri, random_state = Some 42, size_ngh = None,
      n_neighbors = NInt 1, kind_sel = ks, threshold_cleaning = thr, n_jobs = 1,
      X_shape_fitted = None, ratio_fitted = None, nn_fitted = None\<rparr>"

definition X_ex :: "int list" where
  "X_ex = [0, 1, 2, 3, 4, 5, 6]"

definition y_ex :: "label list" where
  "y_ex = [1, 0, 0, 0, 0, 1, 0]"

text \<open>The object of the example after \<^verbatim>\<open>fit(X_ex, y_ex)\<close>.\<close>

definition fitted_ex :: "string \<Rightarrow> real \<Rightarrow> bool \<Rightarrow> int ncr" where
  "fitted_ex ks thr ri =
     \<lparr>ratio = RatioStr ''auto'', return_indices = ri, random_state = Some 42, size_ngh = None,
      n_neighbors = NInt 1, kind_sel = ks, threshold_cleaning = thr, n_jobs = 1,
      X_shape_fitted = Some (7, 1), ratio_fitted = Some [(0, 5)],
      nn_fitted = Some \<lparr>nn_n_neighbors = 2, nn_n_jobs = 1, nn_fit_X = None\<rparr>\<rparr>"

text \<open>
  The data on which the selection kind "all" departs from the unanimity test: one sample of
  class 0 among four of class 1, three neighbours.
\<close>

definition X_bug :: "int list" where
  "X_bug = [0, 1, 2, 3, 4]"

definition y_bug :: "label list" where
  "y_bug = [0, 1, 1, 1, 1]"

definition fitted_bug :: "int ncr" where
  "fitted_bug =
     \<lparr>ratio = RatioStr ''auto'', return_indices = True, random_state = None, size_ngh = None,
      n_neighbors = NInt 3, kind_sel = ''all'', threshold_cleaning = 0.5, n_jobs = 1,
      X_shape_fitted = Some (5, 1), ratio_fitted = Some [(1, 4)],
      nn_fitted = Some \<lparr>nn_n_neighbors = 4, nn_n_jobs = 1, nn_fit_X = None\<rparr>\<rparr>"

section \<open>Properties of the array operations\<close>

lemma fold_clear_length: "length (fold (\<lambda>i acc. acc[i := False]) idx m) = length m"
  by (induction idx arbitrary: m) auto

lemma fold_clear_nth:
  "j < length m \<Longrightarrow> fold (\<lambda>i acc. acc[i := False]) idx m ! j = (m ! j \<and> j \<notin> set idx)"
proof (induction idx arbitrary: m)
  case Nil
  then show ?case by simp
next
  case (Cons a idx)
  have "fold (\<lambda>i acc. acc[i := False]) (a # idx) m ! j =
          (m[a := False] ! j \<and> j \<notin> set idx)"
    using Cons.IH [of "m[a := False]"] Cons.prems by simp
  also have "\<dots> = (m ! j \<and> j \<notin> set (a # idx))"
    using Cons.prems by (cases "a = j") simp_all
  finally show ?case .
qed

lemma mask_clear_flatnonzero:
  assumes "mask_clear (replicate n True) idx = Inr m"
  shows "np_flatnonzero m = filter (\<lambda>i. i \<notin> set idx) [0..<n]"
proof -
  from assms have m: "m = fold (\<lambda>i acc. acc[i := False]) idx (replicate n True)"
    by (auto simp: mask_clear_def split: if_splits)
  have len: "length m = n" by (simp add: m fold_clear_length)
  have "filter (\<lambda>i. m ! i) [0..<n] = filter (\<lambda>i. i \<notin> set idx) [0..<n]"
    by (rule filter_cong) (auto simp: m fold_clear_nth)
  then show ?thesis by (simp add: np_flatnonzero_def len)
qed

lemma mask_clear_Inr_iff:
  "(\<exists>m. mask_clear (replicate n True) idx = Inr m) \<longleftrightarrow> (\<forall>i \<in> set idx. i < n)"
  by (auto simp: mask_clear_def)

lemma np_unique_set [simp]: "set (np_unique xs) = set xs"
  by (simp add: np_unique_def)

lemma np_unique_distinct [simp]: "distinct (np_unique xs)"
  by (simp add: np_unique_def)

lemma np_unique_sorted [simp]: "sorted (np_unique xs)"
  by (simp add: np_unique_def)

lemma map_of_counter_add:
  "map_of (counter_add c kvs) =
     (map_of kvs)(c \<mapsto> (case map_of kvs c of None \<Rightarrow> 1 | Some n \<Rightarrow> Suc n))"
  by (induction c kvs rule: counter_add.induct) (auto simp: fun_eq_iff)

lemma keys_counter_add: "fst ` set (counter_add c kvs) = insert c (fst ` set kvs)"
  by (induction c kvs rule: counter_add.induct) auto

lemma distinct_counter_add:
  "distinct (map fst kvs) \<Longrightarrow> distinct (map fst (counter_add c kvs))"
  by (induction c kvs rule: counter_add.induct) (auto simp: keys_counter_add)

lemma Counter_snoc: "Counter (ys @ [c]) = counter_add c (Counter ys)"
  by (simp add: Counter_def)

lemma distinct_Counter: "distinct (map fst (Counter ys))"
  by (induction ys rule: rev_induct) (simp_all add: Counter_def distinct_counter_add)

lemma map_of_Counter:
  "map_of (Counter ys) c = (if c \<in> set ys then Some (count_list ys c) else None)"
proof (induction ys rule: rev_induct)
  case Nil
  then show ?case by (simp add: Counter_def)
next
  case (snoc x xs)
  then show ?case by (auto simp: Counter_snoc map_of_counter_add)
qed

lemma Counter_mem:
  "(c, k) \<in> set (Counter ys) \<longleftrightarrow> c \<in> set ys \<and> k = count_list ys c"
  using map_of_eq_Some_iff [OF distinct_Counter, of ys c k]
  by (auto simp: map_of_Counter split: if_splits)

lemma classes_under_sample_iff:
  "c \<in> set (classes_under_sample (Counter y) ratio_dict n thr) \<longleftrightarrow>
     c \<in> set y \<and> c \<in> fst ` set ratio_dict \<and> real (count_list y c) > real n * thr"
  by (auto simp: classes_under_sample_def Counter_mem image_iff)


lemma stage_a2_state:
  "snd (stage_a2 env st X y) = st \<or>
   (\<exists>nn. nn_fitted st = Some nn \<and> snd (stage_a2 env st X y) = st\<lparr>nn_fitted := Some (nn_fit nn X)\<rparr>)"
  by (auto simp: stage_a2_def Let_def split: sum.splits option.splits)

lemma index_target_class_state:
  "snd (index_target_class env st X y) = st \<or>
   (\<exists>nn. nn_fitted st = Some nn \<and>
         snd (index_target_class env st X y) = st\<lparr>nn_fitted := Some (nn_fit nn X)\<rparr>)"
  using stage_a2_state [of env st X y]
  by (auto simp: index_target_class_def Let_def split: sum.splits prod.splits)

lemma index_target_class_Inr:
  assumes "index_target_class env st X y = (Inr idx, st')"
  shows "\<exists>a1 a2. stage_a1 env st X y = Inr a1 \<and> stage_a2 env st X y = (Inr a2, st') \<and>
           idx = filter (\<lambda>i. i \<notin> set a1 \<union> set a2) [0..<length y]"
proof -
  from assms obtain a1 a2 m where a1: "stage_a1 env st X y = Inr a1"
    and a2: "stage_a2 env st X y = (Inr a2, st')"
    and m: "mask_clear (replicate (length y) True) (np_union1d a1 a2) = Inr m"
    and idx: "idx = np_flatnonzero m"
    by (auto simp: index_target_class_def Let_def split: sum.splits prod.splits)
  from mask_clear_flatnonzero [OF m] idx
  have "idx = filter (\<lambda>i. i \<notin> set a1 \<union> set a2) [0..<length y]"
    by (simp add: np_union1d_def)
  with a1 a2 show ?thesis by blast
qed

lemma sample_Inr:
  assumes "sample env st X y = (Inr r, st')"
  shows "\<exists>idx. index_target_class env st X y = (Inr idx, st') \<and>
           (\<forall>i \<in> set idx. i < length X) \<and> (\<forall>i \<in> set idx. i < length y) \<and>
           r = (if return_indices st then Res3 (map (\<lambda>i. X ! i) idx) (map (\<lambda>i. y ! i) idx) idx
                else Res2 (map (\<lambda>i. X ! i) idx) (map (\<lambda>i. y ! i) idx))"
proof -
  from assms obtain idx where i: "index_target_class env st X y = (Inr idx, st')"
    and x: "\<forall>i \<in> set idx. i < length X" and y: "\<forall>i \<in> set idx. i < length y"
    and r: "r = (if return_indices st' then Res3 (map (\<lambda>i. X ! i) idx) (map (\<lambda>i. y ! i) idx) idx
                 else Res2 (map (\<lambda>i. X ! i) idx) (map (\<lambda>i. y ! i) idx))"
    by (auto simp: sample_def take_rows_def split: sum.splits prod.splits if_splits)
  from index_target_class_state [of env st X y] i
  have "return_indices st' = return_indices st" by auto
  with i x y r show ?thesis by auto
qed


lemma stage_a1_eq:
  "stage_a1 env st X y =
     (case enn_fit_sample env (make_enn st) X y of
        Inl e \<Rightarrow> Inl e
      | Inr (X_enn, y_enn, index_not_a1) \<Rightarrow>
          (if \<forall>i \<in> set index_not_a1. i < length y
           then Inr (filter (\<lambda>i. i \<notin> set index_not_a1) [0..<length y])
           else Inl IndexError))"
proof (cases "enn_fit_sample env (make_enn st) X y")
  case (Inl e)
  then show ?thesis by (simp add: stage_a1_def)
next
  case (Inr t)
  obtain Xe ye idx where t: "t = (Xe, ye, idx)" by (cases t) auto
  show ?thesis
  proof (cases "\<forall>i \<in> set idx. i < length y")
    case True
    then obtain m where m: "mask_clear (replicate (length y) True) idx = Inr m"
      by (auto simp: mask_clear_def)
    from mask_clear_flatnonzero [OF m] m Inr t True show ?thesis
      by (simp add: stage_a1_def)
  next
    case False
    then have "mask_clear (replicate (length y) True) idx = Inl IndexError"
      by (auto simp: mask_clear_def)
    with Inr t False show ?thesis by (simp add: stage_a1_def)
  qed
qed

lemma index_target_class_return_indices:
  "index_target_class env (st\<lparr>return_indices := b\<rparr>) X y =
     (fst (index_target_class env st X y),
      (snd (index_target_class env st X y))\<lparr>return_indices := b\<rparr>)"
  by (simp add: index_target_class_def stage_a1_def stage_a2_def make_enn_def Let_def
           split: sum.splits option.splits prod.splits)

section \<open>The instance, evaluated\<close>

lemma sample_ex_all:
  "sample env_ex (fitted_ex ''all'' 0.5 True) X_ex y_ex =
     (Inr (Res3 [0, 3, 5, 6] [1, 0, 1, 0] [0, 3, 5, 6]),
      (fitted_ex ''all'' 0.5 True)
        \<lparr>nn_fitted := Some \<lparr>nn_n_neighbors = 2, nn_n_jobs = 1, nn_fit_X = Some X_ex\<rparr>\<rparr>)"
  by code_simp

lemma stage_a1_ex_all: "stage_a1 env_ex (fitted_ex ''all'' 0.5 True) X_ex y_ex = Inr [2]"
  by code_simp

lemma stage_a2_ex_all: "fst (stage_a2 env_ex (fitted_ex ''all'' 0.5 True) X_ex y_ex) = Inr [1, 4]"
  by code_simp

lemma index_target_class_ex_all:
  "fst (index_target_class env_ex (fitted_ex ''all'' 0.5 True) X_ex y_ex) = Inr [0, 3, 5, 6]"
  by code_simp



lemma enn_ex_all:
  "enn_fit_sample env_ex (make_enn (fitted_ex ''all'' 0.5 True)) X_ex y_ex =
     Inr ([0, 1, 3, 4, 5, 6], [1, 0, 0, 0, 1, 0], [0, 1, 3, 4, 5, 6])"
  by code_simp

section \<open>The retained indices\<close>

text \<open>
  Claim C1. Whenever the cleaning pass returns, the retained indices lie in
  \<open>range(n_samples)\<close> and are exactly the indices that are in neither the noise set of stage
  A1 nor the noise set of stage A2; no index of the union of the two sets is retained. The
  rows that the pass returns are the rows at these indices.
\<close>

theorem C1_retained_indices:
  assumes "sample env st X y = (Inr r, st')"
  shows "\<exists>idx a1 a2.
           index_target_class env st X y = (Inr idx, st') \<and>
           stage_a1 env st X y = Inr a1 \<and> fst (stage_a2 env st X y) = Inr a2 \<and>
           res_X r = map (\<lambda>i. X ! i) idx \<and> res_y r = map (\<lambda>i. y ! i) idx \<and>
           set idx \<subseteq> {0..<length y} \<and>
           set idx = {0..<length y} - (set a1 \<union> set a2) \<and>
           (\<forall>i \<in> set a1 \<union> set a2. i \<notin> set idx)"
proof -
  from sample_Inr [OF assms] obtain idx where
    i: "index_target_class env st X y = (Inr idx, st')"
    and r: "res_X r = map (\<lambda>i. X ! i) idx" "res_y r = map (\<lambda>i. y ! i) idx"
    by (auto split: if_splits)
  from index_target_class_Inr [OF i] obtain a1 a2 where
    a: "stage_a1 env st X y = Inr a1" "stage_a2 env st X y = (Inr a2, st')"
    and idx: "idx = filter (\<lambda>i. i \<notin> set a1 \<union> set a2) [0..<length y]"
    by blast
  have "set idx = {0..<length y} - (set a1 \<union> set a2)"
    by (auto simp: idx)
  with i a r show ?thesis by auto
qed

theorem C1_retained_indices_witness:
  "sample env_ex (fitted_ex ''all'' 0.5 True) X_ex y_ex =
     (Inr (Res3 [0, 3, 5, 6] [1, 0, 1, 0] [0, 3, 5, 6]),
      (fitted_ex ''all'' 0.5 True)
        \<lparr>nn_fitted := Some \<lparr>nn_n_neighbors = 2, nn_n_jobs = 1, nn_fit_X = Some X_ex\<rparr>\<rparr>) \<and>
   stage_a1 env_ex (fitted_ex ''all'' 0.5 True) X_ex y_ex = Inr [2] \<and>
   fst (stage_a2 env_ex (fitted_ex ''all'' 0.5 True) X_ex y_ex) = Inr [1, 4] \<and>
   fst (index_target_class env_ex (fitted_ex ''all'' 0.5 True) X_ex y_ex) = Inr [0, 3, 5, 6] \<and>
   set [0, 3, 5, 6] = {0..<length y_ex} - (set [2] \<union> set [1, 4::nat])"
proof -
  from C1_retained_indices [OF sample_ex_all]
  obtain idx a1 a2 st' where i: "index_target_class env_ex (fitted_ex ''all'' 0.5 True) X_ex y_ex = (Inr idx, st')"
    and a1: "stage_a1 env_ex (fitted_ex ''all'' 0.5 True) X_ex y_ex = Inr a1"
    and a2: "fst (stage_a2 env_ex (fitted_ex ''all'' 0.5 True) X_ex y_ex) = Inr a2"
    and s: "set idx = {0..<length y_ex} - (set a1 \<union> set a2)"
    by blast
  have "a1 = [2]" using a1 unfolding stage_a1_ex_all by simp
  moreover have "a2 = [1, 4]" using a2 unfolding stage_a2_ex_all by simp
  moreover have "idx = [0, 3, 5, 6]" using i index_target_class_ex_all by simp
  ultimately have "set [0, 3, 5, 6] = {0..<length y_ex} - (set [2] \<union> set [1, 4::nat])"
    using s by blast
  then show ?thesis
    by (rule conjI [OF sample_ex_all conjI [OF stage_a1_ex_all
          conjI [OF stage_a2_ex_all conjI [OF index_target_class_ex_all]]]])
qed

text \<open>
  Claim C3. The Edited-Nearest-Neighbours object is built with the selection kind "mode",
  whatever the selection kind of the component is, with the component's own
  \<^verbatim>\<open>n_neighbors\<close>, seed and number of jobs, and it is asked for its indices. When it
  returns the index array \<open>index_not_a1\<close>, stage A1 yields exactly the indices of
  \<open>range(n_samples)\<close> that are not in that array.
\<close>

theorem C3_stage_a1:
  assumes "enn_fit_sample env (make_enn st) X y = Inr (X_enn, y_enn, index_not_a1)"
    and "\<forall>i \<in> set index_not_a1. i < length y"
  shows "enn_kind_sel (make_enn st) = ''mode'' \<and>
         enn_kind_sel (make_enn (st\<lparr>kind_sel := k\<rparr>)) = ''mode'' \<and>
         enn_n_neighbors (make_enn st) = n_neighbors st \<and>
         enn_random_state (make_enn st) = random_state st \<and>
         enn_n_jobs (make_enn st) = n_jobs st \<and>
         enn_return_indices (make_enn st) \<and>
         (\<exists>a1. stage_a1 env st X y = Inr a1 \<and>
               a1 = filter (\<lambda>i. i \<notin> set index_not_a1) [0..<length y] \<and>
               set a1 = {0..<length y} - set index_not_a1)"
proof -
  have "stage_a1 env st X y = Inr (filter (\<lambda>i. i \<notin> set index_not_a1) [0..<length y])"
    using assms by (simp add: stage_a1_eq)
  moreover have "set (filter (\<lambda>i. i \<notin> set index_not_a1) [0..<length y]) =
                   {0..<length y} - set index_not_a1"
    by auto
  ultimately show ?thesis by (simp add: make_enn_def)
qed

theorem C3_stage_a1_witness:
  "enn_fit_sample env_ex (make_enn (fitted_ex ''all'' 0.5 True)) X_ex y_ex =
     Inr ([0, 1, 3, 4, 5, 6], [1, 0, 0, 0, 1, 0], [0, 1, 3, 4, 5, 6]) \<and>
   enn_kind_sel (make_enn (fitted_ex ''all'' 0.5 True)) = ''mode'' \<and>
   stage_a1 env_ex (fitted_ex ''all'' 0.5 True) X_ex y_ex = Inr [2] \<and>
   set [2] = {0..<length y_ex} - set [0, 1, 3, 4, 5, 6::nat]"
proof -
  have b: "\<forall>i \<in> set [0, 1, 3, 4, 5, 6::nat]. i < length y_ex"
    by (simp add: y_ex_def)
  note w = C3_stage_a1 [OF enn_ex_all b]
  from w have k: "enn_kind_sel (make_enn (fitted_ex ''all'' 0.5 True)) = ''mode''"
    by (rule conjunct1)
  from w obtain a1 where a1: "stage_a1 env_ex (fitted_ex ''all'' 0.5 True) X_ex y_ex = Inr a1"
    and s: "set a1 = {0..<length y_ex} - set [0, 1, 3, 4, 5, 6::nat]"
    by blast
  have "a1 = [2]" using a1 unfolding stage_a1_ex_all by simp
  with s have "set [2] = {0..<length y_ex} - set [0, 1, 3, 4, 5, 6::nat]" by blast
  then show ?thesis
    by (rule conjI [OF enn_ex_all conjI [OF k conjI [OF stage_a1_ex_all]]])
qed

text \<open>
  Claim C4. Whenever the cleaning pass returns, its two first outputs are the rows of \<open>X\<close>
  and of \<open>y\<close> at the retained indices: row \<open>k\<close> of the output is row \<open>idx ! k\<close> of the
  input, and the retained indices are strictly increasing, so the rows keep their relative
  order. The pass is a function of \<open>X\<close> and \<open>y\<close>, which it only reads.
\<close>

theorem C4_row_correspondence:
  assumes "sample env st X y = (Inr r, st')"
  shows "\<exists>idx. index_target_class env st X y = (Inr idx, st') \<and>
           res_X r = map (\<lambda>i. X ! i) idx \<and> res_y r = map (\<lambda>i. y ! i) idx \<and>
           sorted_wrt (<) idx \<and>
           (\<forall>i \<in> set idx. i < length y \<and> i < length X) \<and>
           length (res_X r) = length idx \<and> length (res_y r) = length idx \<and>
           (\<forall>k < length idx. res_X r ! k = X ! (idx ! k) \<and> res_y r ! k = y ! (idx ! k))"
proof -
  from sample_Inr [OF assms] obtain idx where
    i: "index_target_class env st X y = (Inr idx, st')"
    and b: "\<forall>i \<in> set idx. i < length X" "\<forall>i \<in> set idx. i < length y"
    and r: "res_X r = map (\<lambda>i. X ! i) idx" "res_y r = map (\<lambda>i. y ! i) idx"
    by (auto split: if_splits)
  from index_target_class_Inr [OF i] obtain a1 a2 where
    idx: "idx = filter (\<lambda>i. i \<notin> set a1 \<union> set a2) [0..<length y]"
    by blast
  have "sorted_wrt (<) idx"
    unfolding idx by (rule sorted_wrt_filter) (rule sorted_wrt_upt)
  with i b r show ?thesis by auto
qed

theorem C4_row_correspondence_witness:
  "sample env_ex (fitted_ex ''all'' 0.5 True) X_ex y_ex =
     (Inr (Res3 [0, 3, 5, 6] [1, 0, 1, 0] [0, 3, 5, 6]),
      (fitted_ex ''all'' 0.5 True)
        \<lparr>nn_fitted := Some \<lparr>nn_n_neighbors = 2, nn_n_jobs = 1, nn_fit_X = Some X_ex\<rparr>\<rparr>) \<and>
   (\<exists>idx. fst (index_target_class env_ex (fitted_ex ''all'' 0.5 True) X_ex y_ex) = Inr idx \<and>
      [0, 3, 5, 6] = map (\<lambda>i. X_ex ! i) idx \<and> [1, 0, 1, 0] = map (\<lambda>i. y_ex ! i) idx \<and>
      sorted_wrt (<) idx)"
proof -
  from C4_row_correspondence [OF sample_ex_all]
  obtain idx st' where i: "index_target_class env_ex (fitted_ex ''all'' 0.5 True) X_ex y_ex = (Inr idx, st')"
    and x: "res_X (Res3 [0, 3, 5, 6] [1, 0, 1, 0] [0, 3, 5, 6]) = map (\<lambda>i. X_ex ! i) idx"
    and y: "res_y (Res3 [0, 3, 5, 6::int] [1, 0, 1, 0] [0, 3, 5, 6]) = map (\<lambda>i. y_ex ! i) idx"
    and s: "sorted_wrt (<) idx"
    by (elim exE conjE) (rule that; assumption)
  from i have i': "fst (index_target_class env_ex (fitted_ex ''all'' 0.5 True) X_ex y_ex) = Inr idx"
    by (simp only: fst_conv)
  from x have x': "[0, 3, 5, 6] = map (\<lambda>i. X_ex ! i) idx" by (simp only: res_X.simps)
  from y have y': "[1, 0, 1, 0] = map (\<lambda>i. y_ex ! i) idx" by (simp only: res_y.simps)
  from i' x' y' s
  have "\<exists>idx. fst (index_target_class env_ex (fitted_ex ''all'' 0.5 True) X_ex y_ex) = Inr idx \<and>
      [0, 3, 5, 6] = map (\<lambda>i. X_ex ! i) idx \<and> [1, 0, 1, 0] = map (\<lambda>i. y_ex ! i) idx \<and>
      sorted_wrt (<) idx"
    by (intro exI [of _ idx] conjI)
  then show ?thesis by (rule conjI [OF sample_ex_all])
qed

section \<open>What the pass reads of the object and of the collaborators\<close>

lemma kneighbors_all_cong:
  "kneighbors env' = kneighbors env \<Longrightarrow> kneighbors_all env' nn qs = kneighbors_all env nn qs"
  by (induction qs) (simp_all split: sum.splits)

lemma a2_after_fit_cong:
  "kneighbors env' = kneighbors env \<Longrightarrow>
   a2_after_fit env' ks nn cm classes X y = a2_after_fit env ks nn cm classes X y"
  using kneighbors_all_cong [of env' env nn] by (simp add: a2_after_fit_def)

lemma stage_a2_cong:
  assumes "kneighbors env' = kneighbors env"
    and "ratio_fitted st2 = ratio_fitted st" "nn_fitted st2 = nn_fitted st"
    and "threshold_cleaning st2 = threshold_cleaning st" "kind_sel st2 = kind_sel st"
  shows "fst (stage_a2 env' st2 X y) = fst (stage_a2 env st X y)"
  using assms a2_after_fit_cong [OF assms(1)]
  by (simp add: stage_a2_def Let_def split: sum.splits option.splits)

lemma index_target_class_cong:
  assumes "stage_a1 env' st2 X y = stage_a1 env st X y"
    and "fst (stage_a2 env' st2 X y) = fst (stage_a2 env st X y)"
  shows "fst (index_target_class env' st2 X y) = fst (index_target_class env st X y)"
proof (cases "stage_a1 env st X y")
  case (Inl e)
  with assms show ?thesis by (simp add: index_target_class_def)
next
  case (Inr a1)
  obtain r s where s: "stage_a2 env st X y = (r, s)" by (cases "stage_a2 env st X y")
  obtain r2 s2 where s2: "stage_a2 env' st2 X y = (r2, s2)" by (cases "stage_a2 env' st2 X y")
  from assms(2) s s2 have "r2 = r" by simp
  with Inr assms(1) s s2 show ?thesis
    by (simp add: index_target_class_def Let_def split: sum.splits)
qed

lemma sample_cong:
  assumes "fst (index_target_class env' st2 X y) = fst (index_target_class env st X y)"
    and "return_indices st2 = return_indices st"
  shows "fst (sample env' st2 X y) = fst (sample env st X y)"
proof -
  obtain r s where s: "index_target_class env st X y = (r, s)"
    by (cases "index_target_class env st X y")
  obtain r2 s2 where s2: "index_target_class env' st2 X y = (r2, s2)"
    by (cases "index_target_class env' st2 X y")
  from assms(1) s s2 have r: "r2 = r" by simp
  from index_target_class_state [of env st X y] s
  have a: "return_indices s = return_indices st" by auto
  from index_target_class_state [of env' st2 X y] s2
  have b: "return_indices s2 = return_indices st2" by auto
  from r a b assms(2) s s2 show ?thesis
    by (simp add: sample_def split: sum.splits)
qed


lemma make_enn_nn_fitted [simp]: "make_enn (st\<lparr>nn_fitted := v\<rparr>) = make_enn st"
  by (simp add: make_enn_def)

lemma stage_a1_nn_fitted [simp]: "stage_a1 env (st\<lparr>nn_fitted := v\<rparr>) X y = stage_a1 env st X y"
  by (simp add: stage_a1_def)

lemma nn_fit_again [simp]: "nn_fit (nn_fit nn X) X = nn_fit nn X"
  by (simp add: nn_fit_def)

lemma stage_a2_again: "stage_a2 env (snd (stage_a2 env st X y)) X y = stage_a2 env st X y"
  by (simp add: stage_a2_def Let_def split: sum.splits option.splits)

lemma stage_a1_after_a2: "stage_a1 env (snd (stage_a2 env st X y)) X y = stage_a1 env st X y"
  using stage_a2_state [of env st X y] by auto

lemma index_target_class_again:
  "index_target_class env (snd (index_target_class env st X y)) X y =
     index_target_class env st X y"
proof (cases "stage_a1 env st X y")
  case (Inl e)
  then show ?thesis by (simp add: index_target_class_def)
next
  case (Inr a1)
  then have s: "snd (index_target_class env st X y) = snd (stage_a2 env st X y)"
    by (simp add: index_target_class_def Let_def split: sum.splits prod.splits)
  show ?thesis
    unfolding s using Inr
    by (simp add: index_target_class_def stage_a2_again stage_a1_after_a2)
qed

lemma sample_snd: "snd (sample env st X y) = snd (index_target_class env st X y)"
  by (simp add: sample_def split: sum.splits prod.splits)

lemma sample_again: "sample env (snd (sample env st X y)) X y = sample env st X y"
  by (simp add: sample_snd) (simp add: sample_def index_target_class_again)

section \<open>An invalid selection kind\<close>

lemma nnhood_bool_invalid:
  "ks \<notin> set SEL_KIND \<Longrightarrow> nnhood_bool ks y_class nnhood_label = Inl UnboundLocalError"
  by (auto simp: nnhood_bool_def SEL_KIND_def)

lemma a2_after_fit_invalid:
  "ks \<notin> set SEL_KIND \<Longrightarrow> \<exists>e. a2_after_fit env ks nn cm classes X y = Inl e"
  by (simp add: a2_after_fit_def Let_def nnhood_bool_invalid split: sum.splits)

lemma stage_a2_invalid:
  assumes "kind_sel st \<notin> set SEL_KIND"
  shows "\<exists>e. fst (stage_a2 env st X y) = Inl e"
  by (simp add: stage_a2_def Let_def a2_after_fit_invalid [OF assms]
           split: sum.splits option.splits)

lemma sample_invalid:
  assumes "kind_sel st \<notin> set SEL_KIND"
  shows "\<exists>e. fst (sample env st X y) = Inl e"
proof -
  from stage_a2_invalid [OF assms] obtain e where "fst (stage_a2 env st X y) = Inl e" by blast
  then have "\<exists>e. fst (index_target_class env st X y) = Inl e"
    by (cases "stage_a2 env st X y") (simp add: index_target_class_def split: sum.splits)
  then show ?thesis
    by (cases "index_target_class env st X y") (auto simp: sample_def)
qed

lemma fit_env_irrelevant:
  "fit (env\<lparr>enn_fit_sample := f, kneighbors := g\<rparr>) st X y = fit env st X y"
  by (simp add: fit_def super_fit_def split: sum.splits prod.splits option.splits)

section \<open>The instance, evaluated: fitting\<close>

lemma base_fit_ex_eval: "base_fit env_ex r X_ex y_ex = Inr ((7, 1), [(0, 5)])"
  by (simp add: env_ex_def base_fit_ex_def X_ex_def y_ex_def Counter_def min_key_def)

lemma check_neighbors_ex_eval:
  "check_neighbors_object env_ex (n_neighbors (ncr_ex ks thr ri)) 1 =
     Inr \<lparr>nn_n_neighbors = 2, nn_n_jobs = 1, nn_fit_X = None\<rparr>"
  by (simp add: env_ex_def check_neighbors_ex_def ncr_ex_def)

lemma after_fit_ex:
  "(ncr_ex ks thr ri)\<lparr>X_shape_fitted := Some (7, 1), ratio_fitted := Some [(0, 5)],
      nn_fitted := Some (\<lparr>nn_n_neighbors = 2, nn_n_jobs = 1, nn_fit_X = None\<rparr>
                           \<lparr>nn_n_jobs := n_jobs (ncr_ex ks thr ri)\<rparr>)\<rparr> = fitted_ex ks thr ri"
  by (simp add: ncr_ex_def fitted_ex_def)

lemma foo_invalid: "kind_sel (ncr_ex ''foo'' thr ri) \<notin> set SEL_KIND"
  by (simp add: ncr_ex_def SEL_KIND_def)

lemma foo_invalid_fitted: "kind_sel (fitted_ex ''foo'' thr ri) \<notin> set SEL_KIND"
  by (simp add: fitted_ex_def SEL_KIND_def)

lemma all_valid: "kind_sel (ncr_ex ''all'' thr ri) \<in> set SEL_KIND"
  by (simp add: ncr_ex_def SEL_KIND_def)

lemma threshold_ex: "threshold_cleaning (ncr_ex ks thr ri) = thr"
  by (simp add: ncr_ex_def)

lemma sample_ex_ri:
  "sample env_ex ((fitted_ex ''all'' 0.5 False)\<lparr>return_indices := True\<rparr>) X_ex y_ex =
     (Inr (Res3 [0, 3, 5, 6] [1, 0, 1, 0] [0, 3, 5, 6]),
      (fitted_ex ''all'' 0.5 True)
        \<lparr>nn_fitted := Some \<lparr>nn_n_neighbors = 2, nn_n_jobs = 1, nn_fit_X = Some X_ex\<rparr>\<rparr>)"
  by code_simp

lemma enn_ex_seed:
  "enn_fit_sample env_ex (c\<lparr>enn_random_state := s\<rparr>) X y = enn_fit_sample env_ex c X y"
  by (simp add: env_ex_def enn_ex_def)

lemma sample_ex_seed:
  "fst (sample env_ex ((fitted_ex ''all'' 0.5 True)\<lparr>random_state := Some 7\<rparr>) X_ex y_ex) =
     Inr (Res3 [0, 3, 5, 6] [1, 0, 1, 0] [0, 3, 5, 6])"
  by code_simp

section \<open>Returning the indices\<close>

text \<open>
  Claim C8. With \<^verbatim>\<open>return_indices\<close> set, the pass returns a third output, and it is the very
  index array whose rows are the two first outputs, element for element. The flag has no
  effect on the selection: the retained indices are the same for both values of the flag,
  and with the flag cleared the pass returns the same two first outputs.
\<close>

theorem C8_return_indices:
  assumes "sample env (st\<lparr>return_indices := True\<rparr>) X y = (Inr r, st')"
  shows "\<exists>idx. r = Res3 (map (\<lambda>i. X ! i) idx) (map (\<lambda>i. y ! i) idx) idx \<and>
           (\<forall>b. fst (index_target_class env (st\<lparr>return_indices := b\<rparr>) X y) = Inr idx) \<and>
           fst (sample env (st\<lparr>return_indices := False\<rparr>) X y) =
             Inr (Res2 (map (\<lambda>i. X ! i) idx) (map (\<lambda>i. y ! i) idx))"
proof -
  from sample_Inr [OF assms] obtain idx where
    i: "index_target_class env (st\<lparr>return_indices := True\<rparr>) X y = (Inr idx, st')"
    and bx: "\<forall>i \<in> set idx. i < length X" and bxy: "\<forall>i \<in> set idx. i < length y"
    and r: "r = Res3 (map (\<lambda>i. X ! i) idx) (map (\<lambda>i. y ! i) idx) idx"
    by auto
  from i have base: "fst (index_target_class env st X y) = Inr idx"
    by (simp add: index_target_class_return_indices)
  then have all: "\<forall>b. fst (index_target_class env (st\<lparr>return_indices := b\<rparr>) X y) = Inr idx"
    by (simp add: index_target_class_return_indices)
  have "fst (sample env (st\<lparr>return_indices := False\<rparr>) X y) =
          Inr (Res2 (map (\<lambda>i. X ! i) idx) (map (\<lambda>i. y ! i) idx))"
    using base bx bxy
    by (simp add: sample_def index_target_class_return_indices take_rows_def)
  with r all show ?thesis by blast
qed

theorem C8_return_indices_witness:
  "sample env_ex ((fitted_ex ''all'' 0.5 False)\<lparr>return_indices := True\<rparr>) X_ex y_ex =
     (Inr (Res3 [0, 3, 5, 6] [1, 0, 1, 0] [0, 3, 5, 6]),
      (fitted_ex ''all'' 0.5 True)
        \<lparr>nn_fitted := Some \<lparr>nn_n_neighbors = 2, nn_n_jobs = 1, nn_fit_X = Some X_ex\<rparr>\<rparr>) \<and>
   fst (sample env_ex ((fitted_ex ''all'' 0.5 False)\<lparr>return_indices := False\<rparr>) X_ex y_ex) =
     Inr (Res2 [0, 3, 5, 6] [1, 0, 1, 0])"
proof -
  from C8_return_indices [OF sample_ex_ri]
  obtain idx where r: "Res3 [0, 3, 5, 6::int] [1, 0, 1, 0] [0, 3, 5, 6] =
        Res3 (map (\<lambda>i. X_ex ! i) idx) (map (\<lambda>i. y_ex ! i) idx) idx"
    and f: "fst (sample env_ex ((fitted_ex ''all'' 0.5 False)\<lparr>return_indices := False\<rparr>) X_ex y_ex) =
        Inr (Res2 (map (\<lambda>i. X_ex ! i) idx) (map (\<lambda>i. y_ex ! i) idx))"
    by (elim exE conjE) (rule that; assumption)
  from r have "map (\<lambda>i. X_ex ! i) idx = [0, 3, 5, 6]" "map (\<lambda>i. y_ex ! i) idx = [1, 0, 1, 0]"
    by (simp_all only: result.inject)
  with f have "fst (sample env_ex ((fitted_ex ''all'' 0.5 False)\<lparr>return_indices := False\<rparr>) X_ex y_ex) =
     Inr (Res2 [0, 3, 5, 6] [1, 0, 1, 0])"
    by (simp only:)
  then show ?thesis by (rule conjI [OF sample_ex_ri])
qed

section \<open>The seed\<close>

text \<open>
  Claim C10. The pass is a function of the data, the fitted object and the collaborators.
  The seed reaches the result only as a field of the configuration handed to the
  Edited-Nearest-Neighbours collaborator: changing the seed of the component is the same as
  changing the seed that the collaborator is given. Hence, with a collaborator that does not
  read its seed, any two seeds give the same result. A second call on the object that the
  first call leaves behind gives the same result and leaves the same object.
\<close>

theorem C10_seed_not_consulted:
  assumes "\<And>c s X y. enn_fit_sample env (c\<lparr>enn_random_state := s\<rparr>) X y = enn_fit_sample env c X y"
  shows "fst (sample env (st\<lparr>random_state := s\<rparr>) X y) =
           fst (sample (env\<lparr>enn_fit_sample :=
                  \<lambda>c. enn_fit_sample env (c\<lparr>enn_random_state := s\<rparr>)\<rparr>) st X y) \<and>
         fst (sample env (st\<lparr>random_state := s1\<rparr>) X y) =
           fst (sample env (st\<lparr>random_state := s2\<rparr>) X y) \<and>
         sample env (snd (sample env st X y)) X y = sample env st X y"
proof -
  let ?env = "env\<lparr>enn_fit_sample := \<lambda>c. enn_fit_sample env (c\<lparr>enn_random_state := s\<rparr>)\<rparr>"
  have m: "\<And>v. make_enn (st\<lparr>random_state := v\<rparr>) = (make_enn st)\<lparr>enn_random_state := v\<rparr>"
    by (simp add: make_enn_def)
  have "stage_a1 env (st\<lparr>random_state := s\<rparr>) X y = stage_a1 ?env st X y"
    by (simp add: stage_a1_def m)
  moreover have "fst (stage_a2 env (st\<lparr>random_state := s\<rparr>) X y) = fst (stage_a2 ?env st X y)"
    by (rule stage_a2_cong) simp_all
  ultimately have "fst (index_target_class env (st\<lparr>random_state := s\<rparr>) X y) =
                     fst (index_target_class ?env st X y)"
    by (rule index_target_class_cong)
  then have a: "fst (sample env (st\<lparr>random_state := s\<rparr>) X y) = fst (sample ?env st X y)"
    by (rule sample_cong) simp
  have "stage_a1 env (st\<lparr>random_state := s1\<rparr>) X y = stage_a1 env (st\<lparr>random_state := s2\<rparr>) X y"
    by (simp add: stage_a1_def m assms)
  moreover have "fst (stage_a2 env (st\<lparr>random_state := s1\<rparr>) X y) =
                   fst (stage_a2 env (st\<lparr>random_state := s2\<rparr>) X y)"
    by (rule stage_a2_cong) simp_all
  ultimately have "fst (index_target_class env (st\<lparr>random_state := s1\<rparr>) X y) =
                     fst (index_target_class env (st\<lparr>random_state := s2\<rparr>) X y)"
    by (rule index_target_class_cong)
  then have b: "fst (sample env (st\<lparr>random_state := s1\<rparr>) X y) =
                  fst (sample env (st\<lparr>random_state := s2\<rparr>) X y)"
    by (rule sample_cong) simp
  from a b sample_again show ?thesis by blast
qed

theorem C10_seed_not_consulted_witness:
  "(\<forall>c s X y. enn_fit_sample env_ex (c\<lparr>enn_random_state := s\<rparr>) X y = enn_fit_sample env_ex c X y) \<and>
   fst (sample env_ex ((fitted_ex ''all'' 0.5 True)\<lparr>random_state := Some 7\<rparr>) X_ex y_ex) =
     Inr (Res3 [0, 3, 5, 6] [1, 0, 1, 0] [0, 3, 5, 6]) \<and>
   fst (sample env_ex ((fitted_ex ''all'' 0.5 True)\<lparr>random_state := None\<rparr>) X_ex y_ex) =
     Inr (Res3 [0, 3, 5, 6] [1, 0, 1, 0] [0, 3, 5, 6])"
proof -
  have h: "\<forall>c s X y. enn_fit_sample env_ex (c\<lparr>enn_random_state := s\<rparr>) X y = enn_fit_sample env_ex c X y"
    by (simp add: enn_ex_seed)
  from C10_seed_not_consulted [where env = env_ex and st = "fitted_ex ''all'' 0.5 True"
      and X = X_ex and y = y_ex and ?s1.0 = "Some 7" and ?s2.0 = None, OF enn_ex_seed]
  have "fst (sample env_ex ((fitted_ex ''all'' 0.5 True)\<lparr>random_state := Some 7\<rparr>) X_ex y_ex) =
        fst (sample env_ex ((fitted_ex ''all'' 0.5 True)\<lparr>random_state := None\<rparr>) X_ex y_ex)"
    by (rule conjunct2 [THEN conjunct1])
  with sample_ex_seed
  have "fst (sample env_ex ((fitted_ex ''all'' 0.5 True)\<lparr>random_state := None\<rparr>) X_ex y_ex) =
     Inr (Res3 [0, 3, 5, 6] [1, 0, 1, 0] [0, 3, 5, 6])"
    by (simp only:)
  then show ?thesis by (rule conjI [OF h conjI [OF sample_ex_seed]])
qed

section \<open>Errors of fitting\<close>



text \<open>
  Claim C7, as stated, fails: the selection kind is checked before the threshold, so with an
  invalid kind and the threshold 1.5 the error is \<^verbatim>\<open>NotImplementedError\<close>.
\<close>

theorem C7_counterexample:
  "\<not> (fst (fit env_ex (ncr_ex ''foo'' 1.5 True) X_ex y_ex) = Some ValueError \<longleftrightarrow>
        threshold_cleaning (ncr_ex ''foo'' 1.5 True) > 1 \<or>
        threshold_cleaning (ncr_ex ''foo'' 1.5 True) < 0)"
  by code_simp

text \<open>
  Claim C7, amended. When the base class and the construction of the search object succeed
  and the selection kind is "all" or "mode", \<^verbatim>\<open>fit\<close> raises \<^verbatim>\<open>ValueError\<close> if and only if
  the threshold is greater than 1 or less than 0, and returns normally if and only if the
  threshold lies in the closed interval from 0 to 1.
\<close>

theorem C7_threshold_checked_after_kind_sel:
  assumes "base_fit env (ratio st) X y = Inr b"
    and "check_neighbors_object env (n_neighbors st) 1 = Inr nn"
    and "kind_sel st \<in> set SEL_KIND"
  shows "(fst (fit env st X y) = Some ValueError \<longleftrightarrow>
            threshold_cleaning st > 1 \<or> threshold_cleaning st < 0) \<and>
         (fst (fit env st X y) = None \<longleftrightarrow>
            0 \<le> threshold_cleaning st \<and> threshold_cleaning st \<le> 1)"
  using assms by (cases b) (auto simp: fit_def super_fit_def Let_def)

theorem C7_threshold_checked_after_kind_sel_witness:
  "kind_sel (ncr_ex ''all'' 1.5 True) \<in> set SEL_KIND \<and>
   fst (fit env_ex (ncr_ex ''all'' 1.5 True) X_ex y_ex) = Some ValueError \<and>
   fst (fit env_ex (ncr_ex ''all'' (- 0.1) True) X_ex y_ex) = Some ValueError \<and>
   fst (fit env_ex (ncr_ex ''all'' 0 True) X_ex y_ex) = None \<and>
   fst (fit env_ex (ncr_ex ''all'' 1 True) X_ex y_ex) = None"
proof -
  have a: "fst (fit env_ex (ncr_ex ''all'' 1.5 True) X_ex y_ex) = Some ValueError"
    using C7_threshold_checked_after_kind_sel [where st = "ncr_ex ''all'' (1.5) True",
        OF base_fit_ex_eval check_neighbors_ex_eval all_valid]
    by (simp add: threshold_ex)
  have b: "fst (fit env_ex (ncr_ex ''all'' (- 0.1) True) X_ex y_ex) = Some ValueError"
    using C7_threshold_checked_after_kind_sel [where st = "ncr_ex ''all'' (- 0.1) True",
        OF base_fit_ex_eval check_neighbors_ex_eval all_valid]
    by (simp add: threshold_ex)
  have c: "fst (fit env_ex (ncr_ex ''all'' 0 True) X_ex y_ex) = None"
    using C7_threshold_checked_after_kind_sel [where st = "ncr_ex ''all'' (0) True",
        OF base_fit_ex_eval check_neighbors_ex_eval all_valid]
    by (simp add: threshold_ex)
  have d: "fst (fit env_ex (ncr_ex ''all'' 1 True) X_ex y_ex) = None"
    using C7_threshold_checked_after_kind_sel [where st = "ncr_ex ''all'' (1) True",
        OF base_fit_ex_eval check_neighbors_ex_eval all_valid]
    by (simp add: threshold_ex)
  from d show ?thesis
    by (rule conjI [OF all_valid conjI [OF a conjI [OF b conjI [OF c]]]])
qed




section \<open>Stage A2\<close>

lemma kneighbors_all_length:
  "kneighbors_all env nn qs = Inr rows \<Longrightarrow> length rows = length qs"
  by (induction qs arbitrary: rows) (auto split: sum.splits)

lemma filter_positions_length:
  "length (filter (\<lambda>i. P (y ! i)) [0..<length y]) = length (filter P y)"
proof -
  have "filter P y = filter P (map (\<lambda>i. y ! i) [0..<length y])"
    by (simp add: map_nth)
  also have "\<dots> = map (\<lambda>i. y ! i) (filter (\<lambda>i. P (y ! i)) [0..<length y])"
    by (simp add: filter_map comp_def)
  finally show ?thesis by simp
qed

lemma nnhood_bool_length:
  assumes "nnhood_bool ks y_class nnhood_label = Inr nb"
    and "length y_class = length nnhood_label"
  shows "length nb = length nnhood_label"
  using assms by (auto simp: nnhood_bool_def split: if_splits)

lemma stage_a2_Inr:
  assumes "stage_a2 env st X y = (Inr a2, st')"
  shows "\<exists>cm ratio_dict nn.
           min_key (Counter y) = Inr cm \<and> ratio_fitted st = Some ratio_dict \<and>
           nn_fitted st = Some nn \<and> st' = st\<lparr>nn_fitted := Some (nn_fit nn X)\<rparr> \<and>
           a2_after_fit env (kind_sel st) (nn_fit nn X) cm
             (classes_under_sample (Counter y) ratio_dict (length X) (threshold_cleaning st)) X y = Inr a2"
  using assms by (auto simp: stage_a2_def Let_def split: sum.splits option.splits)

lemma inconsistent_rows_iff:
  "row \<in> set (map fst (filter (\<lambda>(row, b). \<not> b) (zip xs nb))) \<longleftrightarrow>
     (\<exists>k. k < length xs \<and> k < length nb \<and> \<not> nb ! k \<and> row = xs ! k)"
proof
  assume "row \<in> set (map fst (filter (\<lambda>(row, b). \<not> b) (zip xs nb)))"
  then obtain b where "(row, b) \<in> set (zip xs nb)" and "\<not> b"
    by auto
  then obtain k where "k < length xs" "k < length nb" "xs ! k = row" "nb ! k = b"
    unfolding in_set_zip by auto
  with \<open>\<not> b\<close> show "\<exists>k. k < length xs \<and> k < length nb \<and> \<not> nb ! k \<and> row = xs ! k"
    by blast
next
  assume "\<exists>k. k < length xs \<and> k < length nb \<and> \<not> nb ! k \<and> row = xs ! k"
  then obtain k where k: "k < length xs" "k < length nb" "\<not> nb ! k" "row = xs ! k"
    by blast
  then have "(row, nb ! k) \<in> set (zip xs nb)"
    unfolding in_set_zip by auto
  with k(3) have "(row, nb ! k) \<in> set (filter (\<lambda>(row, b). \<not> b) (zip xs nb))"
    by simp
  then have "fst (row, nb ! k) \<in> fst ` set (filter (\<lambda>(row, b). \<not> b) (zip xs nb))"
    by (rule imageI)
  then show "row \<in> set (map fst (filter (\<lambda>(row, b). \<not> b) (zip xs nb)))"
    by simp
qed

lemma index_a2_set:
  "set (index_a2 y classes nnhood_idx nb) =
     {j. \<exists>k. k < length nnhood_idx \<and> k < length nb \<and> \<not> nb ! k \<and>
              j \<in> set (nnhood_idx ! k) \<and> y ! j \<in> set classes}"
proof -
  have "set (index_a2 y classes nnhood_idx nb) =
          {j. y ! j \<in> set classes \<and>
              (\<exists>row. row \<in> set (map fst (filter (\<lambda>(row, b). \<not> b) (zip nnhood_idx nb))) \<and>
                     j \<in> set row)}"
    unfolding index_a2_def np_unique_set by auto
  also have "\<dots> = {j. \<exists>k. k < length nnhood_idx \<and> k < length nb \<and> \<not> nb ! k \<and>
              j \<in> set (nnhood_idx ! k) \<and> y ! j \<in> set classes}"
    unfolding inconsistent_rows_iff by blast
  finally show ?thesis .
qed

lemma label_rows_Inr:
  "label_rows y idx = Inr ls \<Longrightarrow>
     (\<forall>row \<in> set idx. \<forall>i \<in> set row. i < length y) \<and> ls = map (map (\<lambda>i. y ! i)) idx"
  by (simp add: label_rows_def split: if_splits)

lemma a2_after_fit_Inr:
  assumes "a2_after_fit env ks nn cm classes X y = Inr a2"
  shows "\<exists>rows nb.
           length X = length y \<and>
           kneighbors_all env nn (map (\<lambda>i. X ! i) (filter (\<lambda>i. y ! i = cm) [0..<length y])) = Inr rows \<and>
           (\<forall>row \<in> set rows. \<forall>i \<in> set (tl row). i < length y) \<and>
           nnhood_bool ks (filter (\<lambda>l. l = cm) y) (map (map (\<lambda>i. y ! i)) (map tl rows)) = Inr nb \<and>
           length nb = length rows \<and>
           a2 = index_a2 y classes (map tl rows) nb"
proof -
  let ?Q = "map (\<lambda>i. X ! i) (filter (\<lambda>i. y ! i = cm) [0..<length y])"
  let ?yc = "filter (\<lambda>l. l = cm) y"
  from assms have len: "length X = length y"
    by (simp add: a2_after_fit_def split: if_splits)
  with assms have b: "(case kneighbors_all env nn ?Q of
              Inl e \<Rightarrow> Inl e
            | Inr rows \<Rightarrow>
                (let nnhood_idx = map tl rows
                 in case label_rows y nnhood_idx of
                      Inl e \<Rightarrow> Inl e
                    | Inr nnhood_label \<Rightarrow>
                        (case nnhood_bool ks ?yc nnhood_label of
                           Inl e \<Rightarrow> Inl e
                         | Inr nb \<Rightarrow> Inr (index_a2 y classes nnhood_idx nb)))) = Inr a2"
    by (simp add: a2_after_fit_def)
  then obtain rows where rows: "kneighbors_all env nn ?Q = Inr rows"
    by (cases "kneighbors_all env nn ?Q") simp_all
  with b have c: "(case label_rows y (map tl rows) of
                      Inl e \<Rightarrow> Inl e
                    | Inr nnhood_label \<Rightarrow>
                        (case nnhood_bool ks ?yc nnhood_label of
                           Inl e \<Rightarrow> Inl e
                         | Inr nb \<Rightarrow> Inr (index_a2 y classes (map tl rows) nb))) = Inr a2"
    by (simp add: Let_def)
  then obtain ls where ls: "label_rows y (map tl rows) = Inr ls"
    by (cases "label_rows y (map tl rows)") simp_all
  from label_rows_Inr [OF ls]
  have inr: "\<forall>row \<in> set rows. \<forall>i \<in> set (tl row). i < length y"
    and lse: "ls = map (map (\<lambda>i. y ! i)) (map tl rows)"
    by simp_all
  from c ls have d: "(case nnhood_bool ks ?yc ls of
                           Inl e \<Rightarrow> Inl e
                         | Inr nb \<Rightarrow> Inr (index_a2 y classes (map tl rows) nb)) = Inr a2"
    by simp
  then obtain nb where nb: "nnhood_bool ks ?yc ls = Inr nb"
    by (cases "nnhood_bool ks ?yc ls") simp_all
  with d have a2: "a2 = index_a2 y classes (map tl rows) nb" by simp
  from kneighbors_all_length [OF rows]
  have "length rows = length (filter (\<lambda>i. y ! i = cm) [0..<length y])" by simp
  also have "\<dots> = length ?yc"
    by (rule filter_positions_length)
  finally have "length ?yc = length ls"
    by (simp add: lse)
  from nnhood_bool_length [OF nb this] have "length nb = length rows" by (simp add: lse)
  with len rows inr nb a2 show ?thesis unfolding lse by blast
qed

lemma stage_a2_ex_full:
  "stage_a2 env_ex (fitted_ex ''all'' 0.5 True) X_ex y_ex =
     (Inr [1, 4],
      (fitted_ex ''all'' 0.5 True)
        \<lparr>nn_fitted := Some \<lparr>nn_n_neighbors = 2, nn_n_jobs = 1, nn_fit_X = Some X_ex\<rparr>\<rparr>)"
  by code_simp

lemma min_key_ex: "min_key (Counter y_ex) = Inr 1"
  by code_simp

lemma fitted_ex_fields:
  "ratio_fitted (fitted_ex ks thr ri) = Some [(0, 5)]"
  "nn_fitted (fitted_ex ks thr ri) = Some \<lparr>nn_n_neighbors = 2, nn_n_jobs = 1, nn_fit_X = None\<rparr>"
  "kind_sel (fitted_ex ks thr ri) = ks"
  "threshold_cleaning (fitted_ex ks thr ri) = thr"
  by (simp_all add: fitted_ex_def)



section \<open>The selection kind "all"\<close>

text \<open>
  Claim C2 does not hold of the code. On the data \<open>X_bug\<close>, \<open>y_bug\<close> the minority class is 0,
  its only sample has the neighbours 1, 2 and 3, all of class 1, and none of them bears the
  minority label. Line 195 computes the comparison with the minority class, but line 196
  applies \<^verbatim>\<open>np.all\<close> to the labels, which are all different from zero: the neighbourhood
  is judged consistent and stage A2 is empty, where the unanimity test of the claim would
  make stage A2 the indices 1, 2 and 3.
\<close>

theorem C2_all_kind_at_failing_input:
  "min_key (Counter y_bug) = Inr 0 \<and>
   kneighbors_all env_ex \<lparr>nn_n_neighbors = 4, nn_n_jobs = 1, nn_fit_X = Some X_bug\<rparr> [0] =
     Inr [[0, 1, 2, 3]] \<and>
   label_rows y_bug [[1, 2, 3]] = Inr [[1, 1, 1]] \<and>
   nnhood_bool ''all'' [0] [[1, 1, 1]] = Inr [True] \<and>
   \<not> consistent_all_spec 0 [1, 1, 1] \<and>
   classes_under_sample (Counter y_bug) [(1, 4)] (length X_bug) 0.5 = [1] \<and>
   fst (stage_a2 env_ex fitted_bug X_bug y_bug) = Inr [] \<and>
   index_a2 y_bug [1] [[1, 2, 3]] [consistent_all_spec 0 [1, 1, 1]] = [1, 2, 3] \<and>
   fst (sample env_ex fitted_bug X_bug y_bug) = Inr (Res3 [0, 1, 3, 4] [0, 1, 1, 1] [0, 1, 3, 4])"
  by code_simp

theorem C2_all_kind_at_failing_input_witness:
  "nnhood_bool ''all'' [0] [[1, 1, 1]] \<noteq> Inr [consistent_all_spec 0 [1, 1, 1]]"
proof -
  from C2_all_kind_at_failing_input
  have a: "nnhood_bool ''all'' [0] [[1, 1, 1]] = Inr [True]"
    by (elim conjE) assumption
  from C2_all_kind_at_failing_input
  have b: "\<not> consistent_all_spec 0 [1, 1, 1]"
    by (elim conjE) assumption
  from b have "[consistent_all_spec 0 [1, 1, 1]] \<noteq> [True]" by simp
  with a show ?thesis by simp
qed

end
